theory Spec2Isabelle
  imports Main
begin

section \<open>Python values used by the pipeline\<close>

text \<open>
  A Python \<open>str\<close> is a sequence of Unicode code points, and \<open>len\<close>, \<open>strip\<close>,
  \<open>replace\<close> and \<open>==\<close> work on code points. A string is therefore a list of code
  points; \<open>lit\<close> reads an ASCII literal, and a character outside ASCII is written as its
  code point (\<open>[0xB1]\<close> is the plus-minus sign of the length directive).
\<close>

type_synonym pystr = "nat list"

definition lit :: "string \<Rightarrow> pystr" where
  "lit s = map of_char s"

definition nl :: pystr where
  "nl = [10]"

text \<open>\<open>str.isspace\<close> of one character: the white space of CPython's Unicode database.\<close>

definition isspace :: "nat \<Rightarrow> bool" where
  "isspace c \<longleftrightarrow>
     (0x09 \<le> c \<and> c \<le> 0x0D) \<or> (0x1C \<le> c \<and> c \<le> 0x20) \<or> c = 0x85 \<or> c = 0xA0 \<or>
     c = 0x1680 \<or> (0x2000 \<le> c \<and> c \<le> 0x200A) \<or> c = 0x2028 \<or> c = 0x2029 \<or>
     c = 0x202F \<or> c = 0x205F \<or> c = 0x3000"

text \<open>\<open>s.strip()\<close>: leading and trailing white space removed.\<close>

definition strip :: "pystr \<Rightarrow> pystr" where
  "strip s = rev (dropWhile isspace (rev (dropWhile isspace s)))"

text \<open>
  \<open>s.replace(old, new)\<close>: every occurrence of \<open>old\<close>, left to right and without
  overlap. For an empty \<open>old\<close> Python puts \<open>new\<close> before every character and at the end.
\<close>

function replace_from :: "pystr \<Rightarrow> pystr \<Rightarrow> pystr \<Rightarrow> pystr" where
  "replace_from old new [] = []"
| "replace_from old new (c # cs) =
     (if old \<noteq> [] \<and> take (length old) (c # cs) = old
      then new @ replace_from old new (drop (length old) (c # cs))
      else c # replace_from old new cs)"
  by pat_completeness auto
termination
  by (relation "measure (\<lambda>(old, new, s). length s)") auto

definition replace :: "pystr \<Rightarrow> pystr \<Rightarrow> pystr \<Rightarrow> pystr" where
  "replace s old new =
     (if old = [] then new @ concat (map (\<lambda>c. c # new) s) else replace_from old new s)"

text \<open>
  \<open>str.upper\<close> and \<open>str.lower\<close>. On a string of ASCII characters they change the
  letters \<open>a\<close>..\<open>z\<close> and \<open>A\<close>..\<open>Z\<close> and nothing else. On any other string they follow
  the case tables of the interpreter's Unicode database, which is not part of this
  program: those tables are the parameters \<open>unicode_upper\<close> and \<open>unicode_lower\<close> of the
  runtime below.
\<close>

definition isascii :: "pystr \<Rightarrow> bool" where
  "isascii s = list_all (\<lambda>c. c < 128) s"

definition ascii_upper :: "nat \<Rightarrow> nat" where
  "ascii_upper c = (if 97 \<le> c \<and> c \<le> 122 then c - 32 else c)"

definition ascii_lower :: "nat \<Rightarrow> nat" where
  "ascii_lower c = (if 65 \<le> c \<and> c \<le> 90 then c + 32 else c)"

text \<open>The decimal digits of a natural number.\<close>

fun decimal :: "nat \<Rightarrow> pystr" where
  "decimal n = (if n < 10 then [48 + n] else decimal (n div 10) @ [48 + n mod 10])"

text \<open>
  The values \<open>json.loads\<close> returns: \<open>None\<close>, \<open>bool\<close>, \<open>int\<close>, \<open>float\<close>, \<open>str\<close>,
  \<open>list\<close> and \<open>dict\<close> (a dict as its items; a key occurs once).
\<close>

datatype pyfloat = Finite int int | NaN | Infinity bool

datatype json =
    JNull
  | JBool bool
  | JInt int
  | JFloat pyfloat
  | JStr pystr
  | JList "json list"
  | JDict "(pystr \<times> json) list"

text \<open>
  Exceptions, each with \<open>str(e)\<close>, the text an f-string prints for it.
  \<open>OtherError\<close> stands for any other subclass of \<open>Exception\<close>, such as the errors of
  the remote API.
\<close>

datatype exn =
    JSONDecodeError pystr
  | ValueError pystr
  | AttributeError pystr
  | KeyError pystr
  | OtherError pystr

fun exn_str :: "exn \<Rightarrow> pystr" where
  "exn_str (JSONDecodeError m) = m"
| "exn_str (ValueError m) = m"
| "exn_str (AttributeError m) = m"
| "exn_str (KeyError m) = m"
| "exn_str (OtherError m) = m"

text \<open>
  \<open>str(n)\<close> for an \<open>int\<close>, as an f-string prints it. CPython does not print an
  integer of more than \<open>sys.get_int_max_str_digits()\<close> decimal digits, the sign not
  counted: it raises \<open>ValueError\<close>. The limit is 4300 unless a program changes it, and
  this one does not.
\<close>

definition int_max_str_digits :: nat where
  "int_max_str_digits = 4300"

definition str_of_int :: "int \<Rightarrow> exn + pystr" where
  "str_of_int i =
     (if int_max_str_digits < length (decimal (nat \<bar>i\<bar>))
      then Inl (ValueError
             (lit ''Exceeds the limit (4300 digits) for integer string conversion; '' @
              lit ''use sys.set_int_max_str_digits() to increase the limit''))
      else Inr (if i < 0 then lit ''-'' @ decimal (nat \<bar>i\<bar>) else decimal (nat \<bar>i\<bar>)))"

fun type_name :: "json \<Rightarrow> pystr" where
  "type_name JNull = lit ''NoneType''"
| "type_name (JBool b) = lit ''bool''"
| "type_name (JInt i) = lit ''int''"
| "type_name (JFloat f) = lit ''float''"
| "type_name (JStr s) = lit ''str''"
| "type_name (JList xs) = lit ''list''"
| "type_name (JDict d) = lit ''dict''"

text \<open>The error of \<open>v.attr\<close> when the type of \<open>v\<close> has no such attribute.\<close>

definition no_attribute :: "json \<Rightarrow> string \<Rightarrow> exn" where
  "no_attribute v attr =
     AttributeError ([39] @ type_name v @ [39] @ lit '' object has no attribute '' @
                     [39] @ lit attr @ [39])"

text \<open>\<open>d[k]\<close> on a dict whose keys are plain words: a missing key raises \<open>KeyError\<close>.\<close>

definition getitem :: "(pystr \<times> 'v) list \<Rightarrow> pystr \<Rightarrow> exn + 'v" where
  "getitem d k = (case map_of d k of None \<Rightarrow> Inl (KeyError ([39] @ k @ [39])) | Some v \<Rightarrow> Inr v)"

text \<open>\<open>d.get(k, default)\<close> on a dict.\<close>

definition dict_get :: "(pystr \<times> 'v) list \<Rightarrow> pystr \<Rightarrow> 'v \<Rightarrow> 'v" where
  "dict_get d k dflt = (case map_of d k of None \<Rightarrow> dflt | Some v \<Rightarrow> v)"

text \<open>\<open>result.get(k, default)\<close> on a decoded value: only a dict has \<open>get\<close>.\<close>

fun json_get :: "json \<Rightarrow> pystr \<Rightarrow> json \<Rightarrow> exn + json" where
  "json_get (JDict d) k dflt = Inr (dict_get d k dflt)"
| "json_get JNull k dflt = Inl (no_attribute JNull ''get'')"
| "json_get (JBool b) k dflt = Inl (no_attribute (JBool b) ''get'')"
| "json_get (JInt i) k dflt = Inl (no_attribute (JInt i) ''get'')"
| "json_get (JFloat f) k dflt = Inl (no_attribute (JFloat f) ''get'')"
| "json_get (JStr s) k dflt = Inl (no_attribute (JStr s) ''get'')"
| "json_get (JList xs) k dflt = Inl (no_attribute (JList xs) ''get'')"

section \<open>The runtime and the session\<close>

text \<open>
  What the program is given and does not define: the Unicode case tables, \<open>json.loads\<close>
  and the remote model. \<open>model_generate_content n prompt config\<close> is the outcome of the
  \<open>n\<close>-th call (counted from 0) of \<open>model.generate_content\<close> in the session, so the
  remote model may answer the same prompt differently each time: \<open>Inl e\<close> when the call,
  or reading \<open>response.text\<close>, raises \<open>e\<close>, and \<open>Inr t\<close> when \<open>response.text\<close> is \<open>t\<close>.
  \<open>config\<close> is the \<open>generation_config\<close> argument, \<open>None\<close> when it is not passed.
\<close>

record runtime =
  unicode_upper :: "pystr \<Rightarrow> pystr"
  unicode_lower :: "pystr \<Rightarrow> pystr"
  json_loads :: "pystr \<Rightarrow> exn + json"
  model_generate_content :: "nat \<Rightarrow> pystr \<Rightarrow> json option \<Rightarrow> exn + pystr"

definition upper :: "runtime \<Rightarrow> pystr \<Rightarrow> pystr" where
  "upper rt s = (if isascii s then map ascii_upper s else unicode_upper rt s)"

definition lower :: "runtime \<Rightarrow> pystr \<Rightarrow> pystr" where
  "lower rt s = (if isascii s then map ascii_lower s else unicode_lower rt s)"

text \<open>\<open>v.lower()\<close> on a decoded value: only a \<open>str\<close> has \<open>lower\<close>.\<close>

fun json_lower :: "runtime \<Rightarrow> json \<Rightarrow> exn + pystr" where
  "json_lower rt (JStr s) = Inr (lower rt s)"
| "json_lower rt JNull = Inl (no_attribute JNull ''lower'')"
| "json_lower rt (JBool b) = Inl (no_attribute (JBool b) ''lower'')"
| "json_lower rt (JInt i) = Inl (no_attribute (JInt i) ''lower'')"
| "json_lower rt (JFloat f) = Inl (no_attribute (JFloat f) ''lower'')"
| "json_lower rt (JList xs) = Inl (no_attribute (JList xs) ''lower'')"
| "json_lower rt (JDict d) = Inl (no_attribute (JDict d) ''lower'')"

text \<open>
  The effects of a run: the remote calls made (prompt and configuration, in order), the
  messages shown with \<open>st.error\<close>, and the seconds slept between attempts.
\<close>

record session =
  remote_calls :: "(pystr \<times> json option) list"
  st_errors :: "pystr list"
  sleeps :: "nat list"

definition generate_content :: "runtime \<Rightarrow> pystr \<Rightarrow> json option \<Rightarrow> session \<Rightarrow> (exn + pystr) \<times> session" where
  "generate_content rt prompt config s =
     (model_generate_content rt (length (remote_calls s)) prompt config,
      s\<lparr>remote_calls := remote_calls s @ [(prompt, config)]\<rparr>)"

text \<open>\<open>st.error(msg)\<close> shows the message on the page and returns.\<close>

definition st_error :: "pystr \<Rightarrow> session \<Rightarrow> session" where
  "st_error msg s = s\<lparr>st_errors := st_errors s @ [msg]\<rparr>"

section \<open>The retry decorator\<close>

text \<open>
  \<open>@retry(stop=stop_after_attempt(3), wait=wait_exponential(multiplier=1, min=4, max=10))\<close>
  of the tenacity library: the decorated function is called; when the call raises, and it
  was not the third attempt, the decorator sleeps and calls again; when the third attempt
  raises, the decorator raises \<open>RetryError\<close>. A call that returns ends the loop. The wait
  after attempt \<open>n\<close> is \<open>multiplier * 2 ^ (n - 1)\<close> seconds, at most \<open>max\<close> and at least
  \<open>min\<close>.
\<close>

datatype retry_error = RetryError exn

definition wait_exponential :: "nat \<Rightarrow> nat" where
  "wait_exponential attempt = max 4 (min (1 * 2 ^ (attempt - 1)) 10)"

definition sleep :: "nat \<Rightarrow> session \<Rightarrow> session" where
  "sleep secs s = s\<lparr>sleeps := sleeps s @ [secs]\<rparr>"

function retry_from :: "nat \<Rightarrow> (session \<Rightarrow> (exn + 'a) \<times> session) \<Rightarrow> session \<Rightarrow> (retry_error + 'a) \<times> session" where
  "retry_from attempt f s =
     (case f s of
        (Inr v, s') \<Rightarrow> (Inr v, s')
      | (Inl e, s') \<Rightarrow>
          if 3 \<le> attempt then (Inl (RetryError e), s')
          else retry_from (attempt + 1) f (sleep (wait_exponential attempt) s'))"
  by pat_completeness auto
termination
  by (relation "measure (\<lambda>(attempt, f, s). 3 - attempt)") auto

definition retry :: "(session \<Rightarrow> (exn + 'a) \<times> session) \<Rightarrow> session \<Rightarrow> (retry_error + 'a) \<times> session" where
  "retry f s = retry_from 1 f s"

section \<open>The prompt texts\<close>

text \<open>
  The string literals of \<open>app.py\<close>, line by line; an f-string has its expressions
  in place. The f-string of \<open>base_instructions\<close> prints the word count, which may
  raise.
\<close>

definition sentiment_prompt :: "pystr \<Rightarrow> pystr" where
  \<open>sentiment_prompt text =
     nl @
     lit ''    Classify the sentiment of the following text as exactly one of: '' @
     lit ''positive, negative, neutral.'' @ nl @
     lit ''    '' @ nl @
     lit ''    Text: '' @ text @ nl @
     lit ''    ''\<close>

definition base_instructions :: "pystr \<Rightarrow> int \<Rightarrow> exn + pystr" where
  \<open>base_instructions sentiment word_count =
     (case str_of_int word_count of
        Inl e \<Rightarrow> Inl e
      | Inr count \<Rightarrow>
          Inr (
          nl @
          lit ''    Task: Generate a coherent '' @
          (if word_count < 150 then lit ''paragraph'' else lit ''short essay'') @
          lit '' based on the original prompt.'' @ nl @
          lit ''    - Strictly maintain '' @ sentiment @ lit '' tone.'' @ nl @
          lit ''    - Exactly '' @ count @ lit '' words ('' @ [0xB1] @
          lit ''20).'' @ nl @
          lit ''    - Engaging and natural; structure: Start with a hook related to '' @
          lit ''the prompt, develop 2-3 key ideas, and end with a reflective close.'' @ nl @
          lit ''    ''))\<close>

definition flair :: "pystr" where
  \<open>flair =
     nl @
     lit ''        - In ELI10 style: Explain like you're talking to a '' @
     lit ''10-year-old'' @ [0x2014] @
     lit ''use simple words, short sentences, fun examples, and easy ideas '' @
     lit ''anyone can get. Avoid big words or boring facts; make it feel like '' @
     lit ''a story or chat with a kid.'' @ nl @
     lit ''        ''\<close>

definition extra_flair_positive :: "pystr" where
  \<open>extra_flair_positive =
     lit ''Add 3-5 fun jokes or puns to make it hilarious, and sprinkle in '' @
     lit ''lots of excited emojis (like '' @ [0x1F604] @ lit '', '' @ [0x1F680] @ lit '', '' @
     [0x1F389] @ lit '') throughout to amp up the joy!''\<close>

definition extra_flair_negative :: "pystr" where
  \<open>extra_flair_negative =
     lit ''Weave in 2-3 dark humor jokes or ironic twists to heighten the '' @
     lit ''gloom, and use grumpy/sad emojis (like '' @ [0x1F61E] @ lit '', '' @ [0x1F327] @
     [0xFE0F] @ lit '', '' @ [0x1F494] @ lit '') to match the vibe.''\<close>

definition extra_flair_neutral :: "pystr" where
  \<open>extra_flair_neutral =
     lit ''Keep it balanced with 2-3 light, observational jokes if they fit '' @
     lit ''naturally, and add neutral emojis (like '' @ [0x1F4D6] @ lit '', '' @ [0x1F324] @
     [0xFE0F] @ lit '', '' @ [0x1F914] @ lit '') sparingly for visual pop.''\<close>

definition extra_flair_normal :: "pystr" where
  \<open>extra_flair_normal =
     nl @
     lit ''        - Use a formal, professional tone suitable for adults: '' @
     lit ''Clear, concise language with varied sentence structure. No slang, '' @
     lit ''jokes, or emojis.'' @ nl @
     lit ''        ''\<close>

definition eli10_example_positive :: "pystr" where
  \<open>eli10_example_positive =
     nl @
     lit ''    - Original (positive): "I love sunny days at the beach."'' @ nl @
     lit ''      Generated (positive): "Imagine the sun smiling down on the '' @
     lit ''beach, making everything warm and sparkly like a giant hug from the '' @
     lit ''sky '' @ [0x1F604] @
     lit ''! You can splash in the waves that tickle your toes and build the '' @
     lit ''tallest sandcastles ever'' @ [0x2014] @
     lit ''watch out, or the tide might say, 'Hey, that's my moat!' '' @ [0x1F602] @
     lit ''. Kids everywhere are giggling and chasing seagulls'' @ [0x2014] @
     lit ''it's like the world's best playground '' @ [0x1F389] @
     lit ''! And at the end of the day, as the sun says goodnight with pretty '' @
     lit ''colors, you feel super happy inside, ready for more adventures '' @
     lit ''tomorrow '' @ [0x1F680] @
     lit ''. Why did the beach ball go to school? To get a little 'shore' '' @
     lit ''education! '' @ [0x1F305] @ lit ''"'' @ nl @
     lit ''        ''\<close>

definition eli10_example_negative :: "pystr" where
  \<open>eli10_example_negative =
     nl @
     lit ''    - Original (negative): "Traffic jams ruin my commute."'' @ nl @
     lit ''      Generated (negative): "Ugh, picture being stuck in a huge '' @
     lit ''line of cars, like a boring game where nobody moves '' @ [0x1F61E] @
     lit ''. The engine grumbles like a grumpy monster, and the clock just '' @
     lit ''laughs at you while time drags on forever'' @ [0x2014] @
     lit ''talk about a 'traffic' light that never turns green! '' @ [0x1F327] @ [0xFE0F] @
     lit ''. Horns beep like angry birds, and you're trapped with nowhere to '' @
     lit ''go, making everything feel extra yucky and slow '' @ [0x1F494] @
     lit ''. It's like the cars are having a never-ending staring contest. Why '' @
     lit ''don't traffic jams ever break up? They're just too 'jammed' '' @
     lit ''together! '' @ [0x1F624] @
     lit '' At least when you finally get home, you can sigh and say, 'Better '' @
     lit ''luck tomorrow... maybe.'"'' @ nl @
     lit ''        ''\<close>

definition eli10_example_neutral :: "pystr" where
  \<open>eli10_example_neutral =
     nl @
     lit ''    - Original (neutral): "The weather today is mild."'' @ nl @
     lit ''      Generated (neutral): "Today's weather is just right, not too '' @
     lit ''hot or too cold'' @ [0x2014] @
     lit ''like wearing your favorite cozy sweater outside '' @ [0x1F324] @ [0xFE0F] @
     lit ''. Clouds float by like fluffy sheep, and the breeze is gentle, '' @
     lit ''perfect for kicking a ball or reading a book under a tree '' @ [0x1F4D6] @
     lit ''. It's a normal day where you can do whatever you want without '' @
     lit ''sweating or shivering, keeping things simple and easy '' @ [0x1F914] @
     lit ''. Why did the cloud go to school? To get a little 'higher' '' @
     lit ''education! '' @ [0x2601] @ [0xFE0F] @ lit '' Either way, it's a chill day'' @
     [0x2014] @ lit ''no drama, just steady and nice, like your best buddy who's always '' @
     lit ''there without stealing the show."'' @ nl @
     lit ''        ''\<close>

definition normal_example_positive :: "pystr" where
  \<open>normal_example_positive =
     nl @
     lit ''    - Original (positive): "I love sunny days at the beach."'' @ nl @
     lit ''      Generated (positive): "Sunny days at the beach evoke a '' @
     lit ''profound sense of joy and relaxation. The golden sunlight bathes '' @
     lit ''the shoreline in warmth, creating an ideal setting for leisurely '' @
     lit ''walks along the water's edge. Families gather to enjoy the rhythmic '' @
     lit ''crash of waves, while the gentle sea breeze carries the faint scent '' @
     lit ''of salt and sunscreen. Such moments remind us of nature's ability '' @
     lit ''to recharge the spirit, fostering connections with loved ones and '' @
     lit ''inspiring a deeper appreciation for life's simple pleasures."'' @ nl @
     lit ''        ''\<close>

definition normal_example_negative :: "pystr" where
  \<open>normal_example_negative =
     nl @
     lit ''    - Original (negative): "Traffic jams ruin my commute."'' @ nl @
     lit ''      Generated (negative): "Traffic jams transform an ordinary '' @
     lit ''commute into an exasperating ordeal, marked by stagnation and '' @
     lit ''mounting irritation. Vehicles inch forward amid the cacophony of '' @
     lit ''impatient horns, while exhaust fumes thicken the air, amplifying '' @
     lit ''the sense of confinement. Precious time slips away in this '' @
     lit ''involuntary standstill, disrupting schedules and eroding '' @
     lit ''productivity. Ultimately, these delays underscore the '' @
     lit ''vulnerabilities of urban mobility, leaving commuters drained and '' @
     lit ''resentful upon arrival."'' @ nl @
     lit ''        ''\<close>

definition normal_example_neutral :: "pystr" where
  \<open>normal_example_neutral =
     nl @
     lit ''    - Original (neutral): "The weather today is mild."'' @ nl @
     lit ''      Generated (neutral): "The current weather conditions are '' @
     lit ''mild, characterized by moderate temperatures and low humidity. This '' @
     lit ''equilibrium supports a variety of daily activities, from outdoor '' @
     lit ''errands to indoor pursuits, without the discomfort of extremes. '' @
     lit ''Light cloud cover provides intermittent shade, and a subtle breeze '' @
     lit ''maintains comfort levels. Overall, it presents an unremarkable yet '' @
     lit ''conducive environment for routine proceedings."'' @ nl @
     lit ''        ''\<close>

section \<open>The sentiment classifier\<close>

text \<open>The \<open>json_schema\<close> and \<open>generation_config\<close> dicts passed with the classification call.\<close>

definition json_schema :: json where
  "json_schema =
     JDict [(lit ''type'', JStr (lit ''object'')),
            (lit ''properties'',
               JDict [(lit ''sentiment'',
                 JDict [(lit ''type'', JStr (lit ''string'')),
                        (lit ''enum'', JList [JStr (lit ''positive''), JStr (lit ''negative''),
                                              JStr (lit ''neutral'')])])]),
            (lit ''required'', JList [JStr (lit ''sentiment'')])]"

definition generation_config :: json where
  "generation_config =
     JDict [(lit ''response_mime_type'', JStr (lit ''application/json'')),
            (lit ''response_schema'', json_schema)]"

text \<open>
  The \<open>try\<close> block of \<open>get_sentiment\<close>: the remote call, the check for an empty
  response, \<open>json.loads\<close>, and \<open>result.get("sentiment", "neutral").lower()\<close>. Each
  step may raise.
\<close>

definition get_sentiment_try :: "runtime \<Rightarrow> pystr \<Rightarrow> session \<Rightarrow> (exn + pystr) \<times> session" where
  "get_sentiment_try rt prompt s =
     (case generate_content rt prompt (Some generation_config) s of
        (Inl e, s') \<Rightarrow> (Inl e, s')
      | (Inr response_text, s') \<Rightarrow>
          if strip response_text = []
          then (Inl (ValueError (lit ''Empty response from Gemini'')), s')
          else (case json_loads rt (strip response_text) of
                  Inl e \<Rightarrow> (Inl e, s')
                | Inr result \<Rightarrow>
                    (case json_get result (lit ''sentiment'') (JStr (lit ''neutral'')) of
                       Inl e \<Rightarrow> (Inl e, s')
                     | Inr v \<Rightarrow> (json_lower rt v, s'))))"

text \<open>
  The function \<open>get_sentiment\<close> as written, under its decorators: the short-input
  guard, the \<open>try\<close> block, and the handler \<open>except (json.JSONDecodeError, ValueError,
  Exception)\<close>, which catches every exception of the block, shows it with \<open>st.error\<close>
  and returns \<open>'neutral'\<close>.
\<close>

definition get_sentiment_body :: "runtime \<Rightarrow> pystr \<Rightarrow> session \<Rightarrow> (exn + pystr) \<times> session" where
  "get_sentiment_body rt text s =
     (if length (strip text) < 3 then (Inr (lit ''neutral''), s)
      else (case get_sentiment_try rt (sentiment_prompt text) s of
              (Inr label, s') \<Rightarrow> (Inr label, s')
            | (Inl e, s') \<Rightarrow>
                (Inr (lit ''neutral''),
                 st_error (lit ''Error in sentiment analysis: '' @ exn_str e) s')))"

text \<open>
  \<open>get_sentiment\<close> with its \<open>@retry\<close> decorator. The outer \<open>@st.cache_data\<close> only
  replays an earlier result of the same call; the model is the call that the cache
  misses.
\<close>

definition get_sentiment :: "runtime \<Rightarrow> pystr \<Rightarrow> session \<Rightarrow> (retry_error + pystr) \<times> session" where
  "get_sentiment rt text s = retry (get_sentiment_body rt text) s"

section \<open>The example banks\<close>

text \<open>\<open>examples.get(sentiment, examples["neutral"])\<close>: the default is looked up first.\<close>

definition eli10_examples :: "(pystr \<times> pystr) list" where
  "eli10_examples =
     [(lit ''positive'', eli10_example_positive),
      (lit ''negative'', eli10_example_negative),
      (lit ''neutral'', eli10_example_neutral)]"

definition get_eli10_examples :: "pystr \<Rightarrow> exn + pystr" where
  "get_eli10_examples sentiment =
     (case getitem eli10_examples (lit ''neutral'') of
        Inl e \<Rightarrow> Inl e
      | Inr dflt \<Rightarrow> Inr (dict_get eli10_examples sentiment dflt))"

definition normal_examples :: "(pystr \<times> pystr) list" where
  "normal_examples =
     [(lit ''positive'', normal_example_positive),
      (lit ''negative'', normal_example_negative),
      (lit ''neutral'', normal_example_neutral)]"

definition get_normal_examples :: "pystr \<Rightarrow> exn + pystr" where
  "get_normal_examples sentiment =
     (case getitem normal_examples (lit ''neutral'') of
        Inl e \<Rightarrow> Inl e
      | Inr dflt \<Rightarrow> Inr (dict_get normal_examples sentiment dflt))"

section \<open>The text generator\<close>

text \<open>\<open>style_mode.upper().replace(" (FUN & EMOJIS)", "").strip()\<close>\<close>

definition normalize_style_mode :: "runtime \<Rightarrow> pystr \<Rightarrow> pystr" where
  "normalize_style_mode rt style_mode =
     strip (replace (upper rt style_mode) (lit '' (FUN & EMOJIS)'') [])"

text \<open>The \<open>if\<close>/\<open>elif\<close>/\<open>else\<close> on the sentiment in the ELI10 branch.\<close>

definition extra_flair :: "pystr \<Rightarrow> pystr" where
  "extra_flair sentiment =
     (if sentiment = lit ''positive'' then extra_flair_positive
      else if sentiment = lit ''negative'' then extra_flair_negative
      else extra_flair_neutral)"

text \<open>
  The instruction \<open>generation_prompt\<close> that \<open>generate_sentiment_aligned_text\<close> assembles
  before its \<open>try\<close> block: the base instructions, the two branches of
  \<open>if style_mode == "ELI10"\<close>, then the original prompt appended. Nothing here is
  inside a handler: what raises, raises out of the function.
\<close>

definition eli10_prompt :: "pystr \<Rightarrow> pystr \<Rightarrow> exn + pystr" where
  "eli10_prompt base sentiment =
     (case get_eli10_examples sentiment of
        Inl e \<Rightarrow> Inl e
      | Inr examples \<Rightarrow>
          Inr (base @ flair @
               (lit '' - '' @ extra_flair sentiment @ nl @ nl @ lit ''Examples:'' @ nl) @
               examples))"

definition normal_prompt :: "pystr \<Rightarrow> pystr \<Rightarrow> exn + pystr" where
  "normal_prompt base sentiment =
     (case get_normal_examples sentiment of
        Inl e \<Rightarrow> Inl e
      | Inr examples \<Rightarrow>
          Inr (base @ extra_flair_normal @ (nl @ nl @ lit ''Examples:'' @ nl) @ examples))"

definition generation_prompt :: "runtime \<Rightarrow> pystr \<Rightarrow> pystr \<Rightarrow> int \<Rightarrow> pystr \<Rightarrow> exn + pystr" where
  "generation_prompt rt sentiment original_prompt word_count style_mode =
     (case base_instructions sentiment word_count of
        Inl e \<Rightarrow> Inl e
      | Inr base \<Rightarrow>
          (case (if normalize_style_mode rt style_mode = lit ''ELI10''
                 then eli10_prompt base sentiment
                 else normal_prompt base sentiment)
           of
             Inl e \<Rightarrow> Inl e
           | Inr prompt \<Rightarrow> Inr (prompt @ (nl @ lit ''Original Prompt: '' @ original_prompt))))"

text \<open>The \<open>try\<close> block: the remote call and the check for an empty response.\<close>

definition generate_try :: "runtime \<Rightarrow> pystr \<Rightarrow> session \<Rightarrow> (exn + pystr) \<times> session" where
  "generate_try rt prompt s =
     (case generate_content rt prompt None s of
        (Inl e, s') \<Rightarrow> (Inl e, s')
      | (Inr response_text, s') \<Rightarrow>
          if strip response_text = []
          then (Inl (ValueError (lit ''Empty response from Gemini'')), s')
          else (Inr (strip response_text), s'))"

text \<open>
  The function as written, under its decorator: the instruction is assembled first,
  outside the \<open>try\<close>; the handler \<open>except (ValueError, Exception)\<close> catches every
  exception of the block, shows it and returns the fixed message.
\<close>

definition generate_body :: "runtime \<Rightarrow> pystr \<Rightarrow> pystr \<Rightarrow> int \<Rightarrow> pystr \<Rightarrow> session \<Rightarrow> (exn + pystr) \<times> session" where
  "generate_body rt sentiment original_prompt word_count style_mode s =
     (case generation_prompt rt sentiment original_prompt word_count style_mode of
        Inl e \<Rightarrow> (Inl e, s)
      | Inr prompt \<Rightarrow>
          (case generate_try rt prompt s of
             (Inr generated, s') \<Rightarrow> (Inr generated, s')
           | (Inl e, s') \<Rightarrow>
               (Inr (lit ''Generation failed. Please try again.''),
                st_error (lit ''Error in text generation: '' @ exn_str e) s')))"

definition generate_sentiment_aligned_text :: "runtime \<Rightarrow> pystr \<Rightarrow> pystr \<Rightarrow> int \<Rightarrow> pystr \<Rightarrow> session \<Rightarrow> (retry_error + pystr) \<times> session" where
  "generate_sentiment_aligned_text rt sentiment original_prompt word_count style_mode s =
     retry (generate_body rt sentiment original_prompt word_count style_mode) s"

section \<open>Runtimes and sessions for the examples\<close>

text \<open>
  A session in which nothing has happened yet, and runtimes whose remote model gives the
  same outcome to every call. \<open>loads_of table\<close> decodes the texts listed in \<open>table\<close> as
  \<open>json.loads\<close> does and rejects every other text; the case tables are never consulted
  on the ASCII texts of the examples.
\<close>

definition fresh :: session where
  "fresh = \<lparr>remote_calls = [], st_errors = [], sleeps = []\<rparr>"

definition loads_of :: "(pystr \<times> json) list \<Rightarrow> pystr \<Rightarrow> exn + json" where
  "loads_of table s =
     (case map_of table s of
        Some v \<Rightarrow> Inr v
      | None \<Rightarrow> Inl (JSONDecodeError (lit ''Expecting value: line 1 column 1 (char 0)'')))"

definition scripted :: "(pystr \<Rightarrow> exn + json) \<Rightarrow> exn + pystr \<Rightarrow> runtime" where
  "scripted loads outcome =
     \<lparr>unicode_upper = (\<lambda>s. s), unicode_lower = (\<lambda>s. s), json_loads = loads,
      model_generate_content = (\<lambda>n prompt config. outcome)\<rparr>"

definition failing_runtime :: runtime where
  "failing_runtime = scripted (loads_of []) (Inl (OtherError (lit ''503 Service Unavailable'')))"

definition empty_runtime :: runtime where
  "empty_runtime = scripted (loads_of []) (Inr (lit ''  ''))"

definition malformed_runtime :: runtime where
  "malformed_runtime = scripted (loads_of []) (Inr (lit ''Sure! The sentiment is positive.''))"

definition answering :: "string \<Rightarrow> json \<Rightarrow> runtime" where
  "answering response decoded = scripted (loads_of [(lit response, decoded)]) (Inr (lit response))"

definition sentiment_object :: "string \<Rightarrow> json" where
  "sentiment_object v = JDict [(lit ''sentiment'', JStr (lit v))]"

definition mixed_runtime :: runtime where
  \<open>mixed_runtime = answering ''{"sentiment": "mixed"}'' (sentiment_object ''mixed'')\<close>

definition capitalised_runtime :: runtime where
  \<open>capitalised_runtime = answering ''{"sentiment": "Positive"}'' (sentiment_object ''Positive'')\<close>

definition missing_field_runtime :: runtime where
  \<open>missing_field_runtime = answering ''{}'' (JDict [])\<close>

definition writing_runtime :: runtime where
  "writing_runtime = scripted (loads_of []) (Inr (lit '' Cities never sleep. ''))"

text \<open>A word count of 4301 digits, one more than CPython prints.\<close>

definition unprintable_word_count :: int where
  "unprintable_word_count = 10 ^ 4300"

section \<open>Auxiliary facts\<close>

declare retry_from.simps [simp del]

declare decimal.simps [simp del]

text \<open>A call that returns at the first attempt is not repeated.\<close>

lemma retry_returns: "f s = (Inr v, s') \<Longrightarrow> retry f s = (Inr v, s')"
  by (simp add: retry_def retry_from.simps)

lemma lit_labels_distinct:
  "lit ''neutral'' \<noteq> lit ''positive''" "lit ''neutral'' \<noteq> lit ''negative''"
  "lit ''negative'' \<noteq> lit ''positive''"
  by (simp_all add: lit_def)

lemma get_eli10_examples_eq:
  "get_eli10_examples sentiment = Inr (dict_get eli10_examples sentiment eli10_example_neutral)"
  by (simp add: get_eli10_examples_def getitem_def eli10_examples_def lit_labels_distinct)

lemma get_normal_examples_eq:
  "get_normal_examples sentiment = Inr (dict_get normal_examples sentiment normal_example_neutral)"
  by (simp add: get_normal_examples_def getitem_def normal_examples_def lit_labels_distinct)





text \<open>Printing the word count: within the limit it returns, one digit more and it raises.\<close>

lemma str_of_int_returns:
  assumes "length (decimal (nat \<bar>word_count\<bar>)) \<le> int_max_str_digits"
  shows "\<exists>count. str_of_int word_count = Inr count"
  using assms by (simp add: str_of_int_def)

lemma decimal_power10: "decimal (10 ^ k) = 49 # replicate k 48"
proof (induction k)
  case 0
  show ?case by (simp add: decimal.simps)
next
  case (Suc k)
  have "\<not> (10::nat) * 10 ^ k < 10" by simp
  then have "decimal (10 ^ Suc k) = decimal (10 ^ k) @ [48]"
    by (subst decimal.simps) simp
  then show ?case
    using Suc by (simp add: replicate_append_same)
qed

lemma str_of_int_power10_raises:
  assumes "int_max_str_digits \<le> k"
  shows "str_of_int (10 ^ k) = Inl (ValueError
     (lit ''Exceeds the limit (4300 digits) for integer string conversion; '' @
      lit ''use sys.set_int_max_str_digits() to increase the limit''))"
proof -
  have "length (decimal (nat \<bar>(10::int) ^ k\<bar>)) = Suc k"
    by (simp add: nat_power_eq decimal_power10)
  then show ?thesis
    using assms by (simp add: str_of_int_def)
qed

lemma str_of_int_unprintable:
  "str_of_int unprintable_word_count = Inl (ValueError
     (lit ''Exceeds the limit (4300 digits) for integer string conversion; '' @
      lit ''use sys.set_int_max_str_digits() to increase the limit''))"
  unfolding unprintable_word_count_def
  by (rule str_of_int_power10_raises) (simp add: int_max_str_digits_def)

lemma printable_200: "length (decimal (nat \<bar>200\<bar>)) \<le> int_max_str_digits"
  by (simp add: decimal.simps int_max_str_digits_def)

lemma printable_120: "length (decimal (nat \<bar>120\<bar>)) \<le> int_max_str_digits"
  by (simp add: decimal.simps int_max_str_digits_def)

lemma printable_50: "length (decimal (nat \<bar>50\<bar>)) \<le> int_max_str_digits"
  by (simp add: decimal.simps int_max_str_digits_def)

lemma str_of_int_200: "str_of_int 200 = Inr (lit ''200'')"
  by (simp add: str_of_int_def decimal.simps int_max_str_digits_def lit_def)

lemma base_instructions_returns:
  assumes "length (decimal (nat \<bar>word_count\<bar>)) \<le> int_max_str_digits"
  shows "\<exists>base. base_instructions sentiment word_count = Inr base"
  using str_of_int_returns [OF assms] by (auto simp add: base_instructions_def)

text \<open>
  The classifier never raises in its body. The generator does not either once the
  word count is printed: every later path returns.
\<close>

lemma get_sentiment_body_returns:
  "\<exists>label s'. get_sentiment_body rt text s = (Inr label, s')"
  by (simp add: get_sentiment_body_def split: prod.splits sum.splits)

lemma generation_prompt_eli10:
  assumes "normalize_style_mode rt style_mode = lit ''ELI10''"
    and "base_instructions sentiment word_count = Inr base"
  shows "generation_prompt rt sentiment original_prompt word_count style_mode =
     Inr (base @ flair @ lit '' - '' @ extra_flair sentiment @
          nl @ nl @ lit ''Examples:'' @ nl @
          dict_get eli10_examples sentiment eli10_example_neutral @
          nl @ lit ''Original Prompt: '' @ original_prompt)"
  using assms by (simp add: generation_prompt_def eli10_prompt_def get_eli10_examples_eq)

lemma generation_prompt_normal:
  assumes "normalize_style_mode rt style_mode \<noteq> lit ''ELI10''"
    and "base_instructions sentiment word_count = Inr base"
  shows "generation_prompt rt sentiment original_prompt word_count style_mode =
     Inr (base @ extra_flair_normal @
          nl @ nl @ lit ''Examples:'' @ nl @
          dict_get normal_examples sentiment normal_example_neutral @
          nl @ lit ''Original Prompt: '' @ original_prompt)"
  using assms by (simp add: generation_prompt_def normal_prompt_def get_normal_examples_eq)

lemma generation_prompt_same_branch:
  assumes "(normalize_style_mode rt a = lit ''ELI10'') = (normalize_style_mode rt b = lit ''ELI10'')"
  shows "generation_prompt rt sentiment original_prompt word_count a =
         generation_prompt rt sentiment original_prompt word_count b"
  using assms
  by (cases "base_instructions sentiment word_count") (simp_all add: generation_prompt_def)

lemma generation_prompt_returns:
  assumes "length (decimal (nat \<bar>word_count\<bar>)) \<le> int_max_str_digits"
  shows "\<exists>prompt.
     generation_prompt rt sentiment original_prompt word_count style_mode = Inr prompt"
proof -
  obtain base where b: "base_instructions sentiment word_count = Inr base"
    using base_instructions_returns [OF assms] by blast
  show ?thesis
    by (cases "normalize_style_mode rt style_mode = lit ''ELI10''")
       (simp_all add: generation_prompt_eli10 [OF _ b] generation_prompt_normal [OF _ b])
qed

lemma generation_prompt_unprintable:
  "generation_prompt rt sentiment original_prompt unprintable_word_count style_mode =
     Inl (ValueError
       (lit ''Exceeds the limit (4300 digits) for integer string conversion; '' @
        lit ''use sys.set_int_max_str_digits() to increase the limit''))"
  by (simp add: generation_prompt_def base_instructions_def str_of_int_unprintable)

lemma generate_body_returns:
  assumes "length (decimal (nat \<bar>word_count\<bar>)) \<le> int_max_str_digits"
  shows "\<exists>generated s'.
     generate_body rt sentiment original_prompt word_count style_mode s = (Inr generated, s')"
proof -
  obtain p where "generation_prompt rt sentiment original_prompt word_count style_mode = Inr p"
    using generation_prompt_returns [OF assms] by blast
  then show ?thesis
    by (simp add: generate_body_def split: prod.splits sum.splits)
qed

lemma generate_returns:
  assumes "length (decimal (nat \<bar>word_count\<bar>)) \<le> int_max_str_digits"
  shows "\<exists>generated s'.
     generate_sentiment_aligned_text rt sentiment original_prompt word_count style_mode s
       = (Inr generated, s')"
proof -
  obtain g s' where
    "generate_body rt sentiment original_prompt word_count style_mode s = (Inr g, s')"
    using generate_body_returns [OF assms] by blast
  then show ?thesis
    by (simp add: generate_sentiment_aligned_text_def retry_returns)
qed

text \<open>
  Whatever the remote model does, one call of the classifier makes at most one remote
  call and never sleeps; so does one call of the generator whose word count is printed.
\<close>

lemma get_sentiment_single_attempt:
  "sleeps (snd (get_sentiment rt text s)) = sleeps s \<and>
   length (remote_calls (snd (get_sentiment rt text s))) \<le> length (remote_calls s) + 1"
proof -
  obtain label s' where b: "get_sentiment_body rt text s = (Inr label, s')"
    using get_sentiment_body_returns by blast
  then have "sleeps s' = sleeps s \<and> length (remote_calls s') \<le> length (remote_calls s) + 1"
    by (auto simp add: get_sentiment_body_def get_sentiment_try_def generate_content_def
          st_error_def split: if_splits sum.splits prod.splits)
  then show ?thesis
    using b by (simp add: get_sentiment_def retry_returns)
qed

lemma generate_single_attempt:
  assumes "length (decimal (nat \<bar>word_count\<bar>)) \<le> int_max_str_digits"
  shows "sleeps (snd (generate_sentiment_aligned_text rt sentiment original_prompt word_count
           style_mode s)) = sleeps s \<and>
         length (remote_calls (snd (generate_sentiment_aligned_text rt sentiment
           original_prompt word_count style_mode s))) \<le> length (remote_calls s) + 1"
proof -
  obtain g s' where
    b: "generate_body rt sentiment original_prompt word_count style_mode s = (Inr g, s')"
    using generate_body_returns [OF assms] by blast
  then have "sleeps s' = sleeps s \<and> length (remote_calls s') \<le> length (remote_calls s) + 1"
    by (auto simp add: generate_body_def generate_try_def generate_content_def
          st_error_def split: if_splits sum.splits prod.splits)
  then show ?thesis
    using b by (simp add: generate_sentiment_aligned_text_def retry_returns)
qed

text \<open>Evaluation of the model on the example runtimes.\<close>

lemmas classifier_eval =
  get_sentiment_def get_sentiment_body_def get_sentiment_try_def generate_content_def
  answering_def scripted_def loads_of_def strip_def isspace_def lit_def fresh_def dict_get_def
  sentiment_object_def lower_def isascii_def ascii_lower_def retry_returns st_error_def

lemmas normalize_eval =
  normalize_style_mode_def upper_def isascii_def ascii_upper_def replace_def strip_def
  isspace_def lit_def

lemma normalize_ELI10_fun:
  "normalize_style_mode rt (lit ''ELI10 (Fun & Emojis)'') = lit ''ELI10''"
  by (simp add: normalize_eval)

lemma normalize_eli10: "normalize_style_mode rt (lit ''eli10'') = lit ''ELI10''"
  by (simp add: normalize_eval)

lemma normalize_ELI10: "normalize_style_mode rt (lit ''ELI10'') = lit ''ELI10''"
  by (simp add: normalize_eval)

lemma normalize_Normal_formal:
  "normalize_style_mode rt (lit ''Normal (Formal)'') = lit ''NORMAL (FORMAL)''"
  by (simp add: normalize_eval)

lemma normalize_normal: "normalize_style_mode rt (lit ''normal'') = lit ''NORMAL''"
  by (simp add: normalize_eval)

section \<open>The sentiment classifier: claims\<close>

text \<open>
  C1, as amended. When the classifier's response decodes to an object, \<open>get_sentiment\<close>
  returns \<open>neutral\<close> if the object has no \<open>sentiment\<close> field or the field is not a
  string, and returns a string field lower-cased whatever it is: a string outside the
  three labels is not coerced, it is returned.
\<close>

theorem sentiment_field_coercion:
  assumes "3 \<le> length (strip text)"
    and "model_generate_content rt (length (remote_calls s)) (sentiment_prompt text)
           (Some generation_config) = Inr t"
    and "strip t \<noteq> []"
    and "json_loads rt (strip t) = Inr (JDict d)"
  shows "(map_of d (lit ''sentiment'') = None \<longrightarrow>
            fst (get_sentiment rt text s) = Inr (lit ''neutral'')) \<and>
         (\<forall>v. map_of d (lit ''sentiment'') = Some (JStr v) \<longrightarrow>
            fst (get_sentiment rt text s) = Inr (lower rt v)) \<and>
         (\<forall>x. map_of d (lit ''sentiment'') = Some x \<longrightarrow> (\<forall>v. x \<noteq> JStr v) \<longrightarrow>
            fst (get_sentiment rt text s) = Inr (lit ''neutral''))"
proof -
  obtain label s' where body: "get_sentiment_body rt text s = (Inr label, s')"
    using get_sentiment_body_returns by blast
  then have g: "fst (get_sentiment rt text s) = Inr label"
    by (simp add: get_sentiment_def retry_returns)
  have r: "Inr label =
      (case json_lower rt (dict_get d (lit ''sentiment'') (JStr (lit ''neutral''))) of
         Inl e \<Rightarrow> Inr (lit ''neutral'') | Inr l \<Rightarrow> (Inr l :: exn + pystr))"
    using assms body
    by (auto simp add: get_sentiment_body_def get_sentiment_try_def generate_content_def
             split: sum.splits)
  have low: "lower rt (lit ''neutral'') = lit ''neutral''"
    by (simp add: lower_def isascii_def ascii_lower_def lit_def)
  show ?thesis
  proof (intro conjI allI impI)
    assume "map_of d (lit ''sentiment'') = None"
    then have "label = lit ''neutral''" using r low by (simp add: dict_get_def)
    then show "fst (get_sentiment rt text s) = Inr (lit ''neutral'')" using g by simp
  next
    fix v assume "map_of d (lit ''sentiment'') = Some (JStr v)"
    then have "label = lower rt v" using r by (simp add: dict_get_def)
    then show "fst (get_sentiment rt text s) = Inr (lower rt v)" using g by simp
  next
    fix x assume "map_of d (lit ''sentiment'') = Some x" "\<forall>v. x \<noteq> JStr v"
    then have "label = lit ''neutral''" using r by (cases x) (simp_all add: dict_get_def)
    then show "fst (get_sentiment rt text s) = Inr (lit ''neutral'')" using g by simp
  qed
qed

theorem sentiment_field_coercion_witness:
  \<open>3 \<le> length (strip (lit ''It is what it is.'')) \<and>
   model_generate_content missing_field_runtime (length (remote_calls fresh))
     (sentiment_prompt (lit ''It is what it is.'')) (Some generation_config) = Inr (lit ''{}'') \<and>
   json_loads missing_field_runtime (strip (lit ''{}'')) = Inr (JDict []) \<and>
   fst (get_sentiment missing_field_runtime (lit ''It is what it is.'') fresh)
     = Inr (lit ''neutral'')\<close>
  using sentiment_field_coercion
    [of "lit ''It is what it is.''" missing_field_runtime fresh "lit ''{}''" "[]"]
  by (simp add: missing_field_runtime_def answering_def scripted_def loads_of_def strip_def
        isspace_def lit_def)

text \<open>
  C1 as stated fails: the response \<open>{"sentiment": "mixed"}\<close> makes \<open>get_sentiment\<close>
  return \<open>mixed\<close>, which is none of the three labels.
\<close>

theorem unrecognised_label_counterexample:
  "fst (get_sentiment mixed_runtime (lit ''It is what it is.'') fresh) = Inr (lit ''mixed'') \<and>
   lit ''mixed'' \<notin> {lit ''positive'', lit ''negative'', lit ''neutral''}"
  by (simp add: classifier_eval mixed_runtime_def)

text \<open>
  C2 fails on the code. With a remote model that raises at every call, \<open>get_sentiment\<close>
  and \<open>generate_sentiment_aligned_text\<close> each make one remote call and never sleep: the
  handler inside the function catches the exception, so the retry decorator sees a call
  that returned.
\<close>

theorem failing_remote_single_attempt:
  "fst (get_sentiment failing_runtime (lit ''I love exploring new cities!'') fresh)
     = Inr (lit ''neutral'') \<and>
   length (remote_calls (snd (get_sentiment failing_runtime
     (lit ''I love exploring new cities!'') fresh))) = 1 \<and>
   sleeps (snd (get_sentiment failing_runtime (lit ''I love exploring new cities!'') fresh)) = [] \<and>
   fst (generate_sentiment_aligned_text failing_runtime (lit ''positive'')
     (lit ''I love exploring new cities!'') 200 (lit ''ELI10'') fresh)
     = Inr (lit ''Generation failed. Please try again.'') \<and>
   length (remote_calls (snd (generate_sentiment_aligned_text failing_runtime (lit ''positive'')
     (lit ''I love exploring new cities!'') 200 (lit ''ELI10'') fresh))) = 1 \<and>
   sleeps (snd (generate_sentiment_aligned_text failing_runtime (lit ''positive'')
     (lit ''I love exploring new cities!'') 200 (lit ''ELI10'') fresh)) = []"
proof -
  have c: "get_sentiment_body failing_runtime (lit ''I love exploring new cities!'') fresh =
      (Inr (lit ''neutral''),
       \<lparr>remote_calls = [(sentiment_prompt (lit ''I love exploring new cities!''),
                          Some generation_config)],
        st_errors = [lit ''Error in sentiment analysis: '' @ lit ''503 Service Unavailable''],
        sleeps = []\<rparr>)"
    by (simp add: get_sentiment_body_def get_sentiment_try_def generate_content_def
          failing_runtime_def scripted_def fresh_def st_error_def)
       (simp add: strip_def isspace_def lit_def)
  obtain p where p: "generation_prompt failing_runtime (lit ''positive'')
      (lit ''I love exploring new cities!'') 200 (lit ''ELI10'') = Inr p"
    using generation_prompt_returns [OF printable_200] by blast
  have g: "generate_body failing_runtime (lit ''positive'')
      (lit ''I love exploring new cities!'') 200 (lit ''ELI10'') fresh =
      (Inr (lit ''Generation failed. Please try again.''),
       \<lparr>remote_calls = [(p, None)],
        st_errors = [lit ''Error in text generation: '' @ lit ''503 Service Unavailable''],
        sleeps = []\<rparr>)"
    using p
    by (simp add: generate_body_def generate_try_def generate_content_def
          failing_runtime_def scripted_def fresh_def st_error_def)
  show ?thesis
    using c g
    by (simp add: get_sentiment_def generate_sentiment_aligned_text_def retry_returns)
qed

text \<open>
  C4. When the remote call raises, or its response is empty after stripping, or
  \<open>json.loads\<close> rejects it, \<open>get_sentiment\<close> returns \<open>neutral\<close>: it returns, it does not
  raise.
\<close>

theorem unparsed_response_neutral:
  assumes "model_generate_content rt (length (remote_calls s)) (sentiment_prompt text)
             (Some generation_config) = Inl e
           \<or> (\<exists>t. model_generate_content rt (length (remote_calls s)) (sentiment_prompt text)
                     (Some generation_config) = Inr t
                \<and> (strip t = [] \<or> (\<exists>e'. json_loads rt (strip t) = Inl e')))"
  shows "\<exists>s'. get_sentiment rt text s = (Inr (lit ''neutral''), s')"
proof -
  have "\<exists>s'. get_sentiment_body rt text s = (Inr (lit ''neutral''), s')"
    using assms
    by (auto simp add: get_sentiment_body_def get_sentiment_try_def generate_content_def)
  then show ?thesis
    by (auto simp add: get_sentiment_def retry_returns)
qed

theorem unparsed_response_neutral_witness:
  "(\<exists>s'. get_sentiment failing_runtime (lit ''I love exploring new cities!'') fresh
            = (Inr (lit ''neutral''), s')) \<and>
   (\<exists>s'. get_sentiment empty_runtime (lit ''I love exploring new cities!'') fresh
            = (Inr (lit ''neutral''), s')) \<and>
   (\<exists>s'. get_sentiment malformed_runtime (lit ''I love exploring new cities!'') fresh
            = (Inr (lit ''neutral''), s'))"
proof (intro conjI)
  show "\<exists>s'. get_sentiment failing_runtime (lit ''I love exploring new cities!'') fresh
            = (Inr (lit ''neutral''), s')"
    by (rule unparsed_response_neutral [where e = "OtherError (lit ''503 Service Unavailable'')"])
       (simp add: failing_runtime_def scripted_def)
  show "\<exists>s'. get_sentiment empty_runtime (lit ''I love exploring new cities!'') fresh
            = (Inr (lit ''neutral''), s')"
    by (rule unparsed_response_neutral [where e = "OtherError []"])
       (simp add: empty_runtime_def scripted_def strip_def isspace_def lit_def)
  show "\<exists>s'. get_sentiment malformed_runtime (lit ''I love exploring new cities!'') fresh
            = (Inr (lit ''neutral''), s')"
    by (rule unparsed_response_neutral [where e = "OtherError []"])
       (simp add: malformed_runtime_def scripted_def loads_of_def)
qed

text \<open>
  C5. A text whose stripped length is below 3 is classified \<open>neutral\<close> and the session is
  unchanged: no remote call was made.
\<close>

theorem short_text_neutral_without_call:
  assumes "length (strip text) < 3"
  shows "get_sentiment rt text s = (Inr (lit ''neutral''), s)"
  using assms by (simp add: get_sentiment_def get_sentiment_body_def retry_returns)

theorem short_text_neutral_without_call_witness:
  "length (strip (lit '' ok '')) < 3 \<and>
   get_sentiment failing_runtime (lit '' ok '') fresh = (Inr (lit ''neutral''), fresh) \<and>
   remote_calls fresh = []"
  using short_text_neutral_without_call [of "lit '' ok ''" failing_runtime fresh]
  by (simp add: strip_def lit_def isspace_def fresh_def)

text \<open>
  C6. When the response decodes to an object whose \<open>sentiment\<close> field is a string that
  is one of the three labels once lower-cased, \<open>get_sentiment\<close> returns it lower-cased.
\<close>

theorem recognised_label_lowercased:
  assumes "3 \<le> length (strip text)"
    and "model_generate_content rt (length (remote_calls s)) (sentiment_prompt text)
           (Some generation_config) = Inr t"
    and "strip t \<noteq> []"
    and "json_loads rt (strip t) = Inr (JDict d)"
    and "map_of d (lit ''sentiment'') = Some (JStr v)"
    and "lower rt v \<in> {lit ''positive'', lit ''negative'', lit ''neutral''}"
  shows "fst (get_sentiment rt text s) = Inr (lower rt v)"
proof -
  have "fst (get_sentiment_body rt text s) = Inr (lower rt v)"
    using assms
    by (simp add: get_sentiment_body_def get_sentiment_try_def generate_content_def dict_get_def)
  then show ?thesis
    by (cases "get_sentiment_body rt text s") (simp add: get_sentiment_def retry_returns)
qed

theorem recognised_label_lowercased_witness:
  \<open>3 \<le> length (strip (lit ''I love exploring new cities!'')) \<and>
   json_loads capitalised_runtime (strip (lit ''{"sentiment": "Positive"}''))
     = Inr (JDict [(lit ''sentiment'', JStr (lit ''Positive''))]) \<and>
   lower capitalised_runtime (lit ''Positive'') = lit ''positive'' \<and>
   fst (get_sentiment capitalised_runtime (lit ''I love exploring new cities!'') fresh)
     = Inr (lit ''positive'')\<close>
  using recognised_label_lowercased
    [of "lit ''I love exploring new cities!''" capitalised_runtime fresh
        \<open>lit ''{"sentiment": "Positive"}''\<close> "[(lit ''sentiment'', JStr (lit ''Positive''))]"
        "lit ''Positive''"]
  by (simp add: capitalised_runtime_def answering_def scripted_def loads_of_def strip_def
        isspace_def lit_def sentiment_object_def lower_def isascii_def ascii_lower_def)

section \<open>The text generator: claims\<close>




text \<open>
  C7. \<open>ELI10 (Fun & Emojis)\<close>, \<open>eli10\<close> and \<open>ELI10\<close> all normalise to \<open>ELI10\<close> and give
  the same instruction, that of the ELI10 branch. \<open>Normal (Formal)\<close> and \<open>normal\<close>
  normalise to \<open>NORMAL (FORMAL)\<close> and \<open>NORMAL\<close>, neither of which is \<open>ELI10\<close>, and
  give the same instruction, that of the formal branch. The instructions are spelt out
  for a word count of at most 4300 digits, for which the base instructions are built.
\<close>

theorem style_mode_normalization:
  "normalize_style_mode rt (lit ''ELI10 (Fun & Emojis)'') = lit ''ELI10'' \<and>
   normalize_style_mode rt (lit ''eli10'') = lit ''ELI10'' \<and>
   normalize_style_mode rt (lit ''ELI10'') = lit ''ELI10'' \<and>
   normalize_style_mode rt (lit ''Normal (Formal)'') = lit ''NORMAL (FORMAL)'' \<and>
   normalize_style_mode rt (lit ''normal'') = lit ''NORMAL'' \<and>
   lit ''NORMAL (FORMAL)'' \<noteq> lit ''ELI10'' \<and> lit ''NORMAL'' \<noteq> lit ''ELI10'' \<and>
   generation_prompt rt sentiment original_prompt word_count (lit ''ELI10 (Fun & Emojis)'') =
     generation_prompt rt sentiment original_prompt word_count (lit ''ELI10'') \<and>
   generation_prompt rt sentiment original_prompt word_count (lit ''eli10'') =
     generation_prompt rt sentiment original_prompt word_count (lit ''ELI10'') \<and>
   generation_prompt rt sentiment original_prompt word_count (lit ''Normal (Formal)'') =
     generation_prompt rt sentiment original_prompt word_count (lit ''normal'') \<and>
   (length (decimal (nat \<bar>word_count\<bar>)) \<le> int_max_str_digits \<longrightarrow>
      (\<exists>base examples.
         base_instructions sentiment word_count = Inr base \<and>
         get_eli10_examples sentiment = Inr examples \<and>
         generation_prompt rt sentiment original_prompt word_count (lit ''ELI10'') =
           Inr (base @ flair @ lit '' - '' @ extra_flair sentiment @
                nl @ nl @ lit ''Examples:'' @ nl @ examples @
                nl @ lit ''Original Prompt: '' @ original_prompt)) \<and>
      (\<exists>base examples.
         base_instructions sentiment word_count = Inr base \<and>
         get_normal_examples sentiment = Inr examples \<and>
         generation_prompt rt sentiment original_prompt word_count (lit ''normal'') =
           Inr (base @ extra_flair_normal @
                nl @ nl @ lit ''Examples:'' @ nl @ examples @
                nl @ lit ''Original Prompt: '' @ original_prompt)))"
proof -
  have d: "lit ''NORMAL (FORMAL)'' \<noteq> lit ''ELI10''" "lit ''NORMAL'' \<noteq> lit ''ELI10''"
    by (simp_all add: lit_def)
  have n2: "normalize_style_mode rt (lit ''normal'') \<noteq> lit ''ELI10''"
    using d by (simp add: normalize_normal)
  have same:
    "generation_prompt rt sentiment original_prompt word_count (lit ''ELI10 (Fun & Emojis)'') =
       generation_prompt rt sentiment original_prompt word_count (lit ''ELI10'')"
    "generation_prompt rt sentiment original_prompt word_count (lit ''eli10'') =
       generation_prompt rt sentiment original_prompt word_count (lit ''ELI10'')"
    "generation_prompt rt sentiment original_prompt word_count (lit ''Normal (Formal)'') =
       generation_prompt rt sentiment original_prompt word_count (lit ''normal'')"
    using d
    by (simp_all add: normalize_ELI10_fun normalize_eli10 normalize_ELI10
          normalize_Normal_formal normalize_normal generation_prompt_same_branch)
  have spelt: "(\<exists>base examples.
         base_instructions sentiment word_count = Inr base \<and>
         get_eli10_examples sentiment = Inr examples \<and>
         generation_prompt rt sentiment original_prompt word_count (lit ''ELI10'') =
           Inr (base @ flair @ lit '' - '' @ extra_flair sentiment @
                nl @ nl @ lit ''Examples:'' @ nl @ examples @
                nl @ lit ''Original Prompt: '' @ original_prompt)) \<and>
      (\<exists>base examples.
         base_instructions sentiment word_count = Inr base \<and>
         get_normal_examples sentiment = Inr examples \<and>
         generation_prompt rt sentiment original_prompt word_count (lit ''normal'') =
           Inr (base @ extra_flair_normal @
                nl @ nl @ lit ''Examples:'' @ nl @ examples @
                nl @ lit ''Original Prompt: '' @ original_prompt))"
    if bound: "length (decimal (nat \<bar>word_count\<bar>)) \<le> int_max_str_digits"
  proof -
    obtain base where b: "base_instructions sentiment word_count = Inr base"
      using base_instructions_returns [OF bound] by blast
    show ?thesis
      by (simp add: b generation_prompt_eli10 [OF normalize_ELI10 b]
            generation_prompt_normal [OF n2 b] get_eli10_examples_eq get_normal_examples_eq)
  qed
  show ?thesis
    using d same spelt
    by (simp add: normalize_ELI10_fun normalize_eli10 normalize_ELI10
          normalize_Normal_formal normalize_normal)
qed

theorem style_mode_normalization_witness:
  "normalize_style_mode failing_runtime (lit ''eli10'') = lit ''ELI10'' \<and>
   generation_prompt failing_runtime (lit ''positive'') (lit ''I love exploring new cities!'')
     200 (lit ''eli10'') =
   generation_prompt failing_runtime (lit ''positive'') (lit ''I love exploring new cities!'')
     200 (lit ''ELI10 (Fun & Emojis)'') \<and>
   generation_prompt failing_runtime (lit ''positive'') (lit ''I love exploring new cities!'')
     200 (lit ''Normal (Formal)'') =
   generation_prompt failing_runtime (lit ''positive'') (lit ''I love exploring new cities!'')
     200 (lit ''normal'') \<and>
   (\<exists>base examples.
      generation_prompt failing_runtime (lit ''positive'')
        (lit ''I love exploring new cities!'') 200 (lit ''normal'') =
        Inr (base @ extra_flair_normal @ nl @ nl @ lit ''Examples:'' @ nl @ examples @
             nl @ lit ''Original Prompt: '' @ lit ''I love exploring new cities!''))"
  using style_mode_normalization [of failing_runtime "lit ''positive''"
      "lit ''I love exploring new cities!''" 200] printable_200
  by auto


text \<open>
  C8, as amended. For every sentiment, original prompt and style mode, and every word
  count of at most 4300 decimal digits, the instruction is, in this order: the task
  framing, the tone directive, the length directive \<open>Exactly N words (\<plusminus>20)\<close>
  with \<open>N\<close> the word count as \<open>str\<close> prints it, the structure directive, the
  directives of the style, the examples of the bank for the sentiment and the style, and
  last the original prompt, unchanged.
\<close>

theorem prompt_sections_in_order:
  assumes "length (decimal (nat \<bar>word_count\<bar>)) \<le> int_max_str_digits"
  shows "\<exists>count examples.
     str_of_int word_count = Inr count \<and>
     (if normalize_style_mode rt style_mode = lit ''ELI10''
      then get_eli10_examples sentiment else get_normal_examples sentiment) = Inr examples \<and>
     generation_prompt rt sentiment original_prompt word_count style_mode =
       Inr (nl @ lit ''    Task: Generate a coherent '' @
              (if word_count < 150 then lit ''paragraph'' else lit ''short essay'') @
              lit '' based on the original prompt.'' @ nl @
            lit ''    - Strictly maintain '' @ sentiment @ lit '' tone.'' @ nl @
            lit ''    - '' @
              (lit ''Exactly '' @ count @ lit '' words ('' @ [0xB1] @ lit ''20)'') @
              lit ''.'' @ nl @
            lit ''    - Engaging and natural; structure: Start with a hook related to '' @
            lit ''the prompt, develop 2-3 key ideas, and end with a reflective close.'' @ nl @
            lit ''    '' @
            (if normalize_style_mode rt style_mode = lit ''ELI10''
             then flair @ lit '' - '' @ extra_flair sentiment
             else extra_flair_normal) @
            nl @ nl @ lit ''Examples:'' @ nl @
            examples @
            nl @ lit ''Original Prompt: '' @ original_prompt)"
proof -
  obtain count where c: "str_of_int word_count = Inr count"
    using str_of_int_returns [OF assms] by blast
  have b: "base_instructions sentiment word_count =
       Inr (nl @ lit ''    Task: Generate a coherent '' @
              (if word_count < 150 then lit ''paragraph'' else lit ''short essay'') @
              lit '' based on the original prompt.'' @ nl @
            lit ''    - Strictly maintain '' @ sentiment @ lit '' tone.'' @ nl @
            lit ''    - '' @
              (lit ''Exactly '' @ count @ lit '' words ('' @ [0xB1] @ lit ''20)'') @
              lit ''.'' @ nl @
            lit ''    - Engaging and natural; structure: Start with a hook related to '' @
            lit ''the prompt, develop 2-3 key ideas, and end with a reflective close.'' @ nl @
            lit ''    '')"
    by (simp add: base_instructions_def c lit_def)
  show ?thesis
  proof (cases "normalize_style_mode rt style_mode = lit ''ELI10''")
    case True
    then show ?thesis
      by (simp add: generation_prompt_eli10 [OF True b] get_eli10_examples_eq c)
  next
    case False
    then show ?thesis
      by (simp add: generation_prompt_normal [OF False b] get_normal_examples_eq c)
  qed
qed

theorem prompt_sections_in_order_witness:
  "length (decimal (nat \<bar>200\<bar>)) \<le> int_max_str_digits \<and>
   generation_prompt failing_runtime (lit ''positive'') (lit ''I love exploring new cities!'')
     200 (lit ''ELI10 (Fun & Emojis)'') =
   Inr (nl @ lit ''    Task: Generate a coherent short essay based on the original prompt.'' @ nl @
        lit ''    - Strictly maintain positive tone.'' @ nl @
        lit ''    - Exactly 200 words ('' @ [0xB1] @ lit ''20).'' @ nl @
        lit ''    - Engaging and natural; structure: Start with a hook related to '' @
        lit ''the prompt, develop 2-3 key ideas, and end with a reflective close.'' @ nl @
        lit ''    '' @ flair @ lit '' - '' @ extra_flair_positive @
        nl @ nl @ lit ''Examples:'' @ nl @
        eli10_example_positive @
        nl @ lit ''Original Prompt: I love exploring new cities!'')"
proof -
  have e: "get_eli10_examples (lit ''positive'') = Inr eli10_example_positive"
    by (simp add: get_eli10_examples_eq dict_get_def eli10_examples_def)
  have f: "extra_flair (lit ''positive'') = extra_flair_positive"
    by (simp add: extra_flair_def)
  show ?thesis
    using printable_200
      prompt_sections_in_order [OF printable_200, of failing_runtime
        "lit ''ELI10 (Fun & Emojis)''" "lit ''positive''" "lit ''I love exploring new cities!''"]
    by (simp add: normalize_ELI10_fun e f str_of_int_200) (simp add: lit_def nl_def)
qed

text \<open>
  C8 as stated fails: with the word count \<open>10 ^ 4300\<close> the f-string that prints it
  raises \<open>ValueError\<close>, and no instruction is assembled.
\<close>

theorem unprintable_word_count_no_prompt_counterexample:
  "generation_prompt failing_runtime (lit ''positive'') (lit ''I love exploring new cities!'')
     unprintable_word_count (lit ''ELI10'') =
   Inl (ValueError
     (lit ''Exceeds the limit (4300 digits) for integer string conversion; '' @
      lit ''use sys.set_int_max_str_digits() to increase the limit''))"
  by (rule generation_prompt_unprintable)

text \<open>
  C9. For a sentiment that is none of the three labels, both example banks give their
  \<open>neutral\<close> entry, the ELI10 branch takes the neutral flair, and
  \<open>generate_sentiment_aligned_text\<close> returns, for a word count of at most 4300 digits.
\<close>

theorem unknown_sentiment_falls_back_to_neutral:
  assumes "sentiment \<notin> {lit ''positive'', lit ''negative'', lit ''neutral''}"
  shows "get_eli10_examples sentiment = Inr eli10_example_neutral \<and>
         get_eli10_examples sentiment = get_eli10_examples (lit ''neutral'') \<and>
         get_normal_examples sentiment = Inr normal_example_neutral \<and>
         get_normal_examples sentiment = get_normal_examples (lit ''neutral'') \<and>
         extra_flair sentiment = extra_flair_neutral \<and>
         extra_flair sentiment = extra_flair (lit ''neutral'') \<and>
         (length (decimal (nat \<bar>word_count\<bar>)) \<le> int_max_str_digits \<longrightarrow>
            (\<exists>generated s'.
               generate_sentiment_aligned_text rt sentiment original_prompt word_count
                 style_mode s = (Inr generated, s')))"
proof -
  have "dict_get eli10_examples sentiment eli10_example_neutral = eli10_example_neutral"
    using assms by (simp add: dict_get_def eli10_examples_def)
  moreover have "dict_get eli10_examples (lit ''neutral'') eli10_example_neutral
      = eli10_example_neutral"
    by (simp add: dict_get_def eli10_examples_def lit_labels_distinct)
  moreover have "dict_get normal_examples sentiment normal_example_neutral
      = normal_example_neutral"
    using assms by (simp add: dict_get_def normal_examples_def)
  moreover have "dict_get normal_examples (lit ''neutral'') normal_example_neutral
      = normal_example_neutral"
    by (simp add: dict_get_def normal_examples_def lit_labels_distinct)
  moreover have "extra_flair sentiment = extra_flair_neutral"
    using assms by (simp add: extra_flair_def)
  moreover have "extra_flair (lit ''neutral'') = extra_flair_neutral"
    by (simp add: extra_flair_def lit_labels_distinct)
  ultimately show ?thesis
    using generate_returns [of word_count rt sentiment original_prompt style_mode s]
    by (simp add: get_eli10_examples_eq get_normal_examples_eq)
qed

theorem unknown_sentiment_falls_back_to_neutral_witness:
  "lit ''mixed'' \<notin> {lit ''positive'', lit ''negative'', lit ''neutral''} \<and>
   length (decimal (nat \<bar>50\<bar>)) \<le> int_max_str_digits \<and>
   get_eli10_examples (lit ''mixed'') = Inr eli10_example_neutral \<and>
   get_normal_examples (lit ''mixed'') = Inr normal_example_neutral \<and>
   extra_flair (lit ''mixed'') = extra_flair_neutral \<and>
   (\<exists>generated s'.
      generate_sentiment_aligned_text writing_runtime (lit ''mixed'')
        (lit ''It is what it is.'') 50 (lit ''eli10'') fresh = (Inr generated, s'))"
proof -
  have m: "lit ''mixed'' \<notin> {lit ''positive'', lit ''negative'', lit ''neutral''}"
    by (simp add: lit_def)
  show ?thesis
    using m printable_50
      unknown_sentiment_falls_back_to_neutral [OF m, of 50 writing_runtime
        "lit ''It is what it is.''" "lit ''eli10''" fresh]
    by simp
qed

text \<open>
  C10. For every style mode whose normalisation is not \<open>ELI10\<close>, the instruction is the
  formal one: the base instructions, the directive that has no slang, jokes or emojis,
  and the examples of the formal bank; and \<open>generate_sentiment_aligned_text\<close> returns.
  The instruction is built, and the function returns, for a word count of at most 4300
  digits.
\<close>

theorem other_style_mode_is_formal:
  assumes "normalize_style_mode rt style_mode \<noteq> lit ''ELI10''"
  shows "(length (decimal (nat \<bar>word_count\<bar>)) \<le> int_max_str_digits \<longrightarrow>
            (\<exists>base examples.
               base_instructions sentiment word_count = Inr base \<and>
               get_normal_examples sentiment = Inr examples \<and>
               generation_prompt rt sentiment original_prompt word_count style_mode =
                 Inr (base @ extra_flair_normal @
                      nl @ nl @ lit ''Examples:'' @ nl @ examples @
                      nl @ lit ''Original Prompt: '' @ original_prompt)) \<and>
            (\<exists>generated s'.
               generate_sentiment_aligned_text rt sentiment original_prompt word_count
                 style_mode s = (Inr generated, s'))) \<and>
         (\<exists>before after.
            extra_flair_normal = before @ lit ''No slang, jokes, or emojis.'' @ after)"
proof -
  have "extra_flair_normal =
      (nl @ lit ''        - Use a formal, professional tone suitable for adults: '' @
       lit ''Clear, concise language with varied sentence structure. '') @
      lit ''No slang, jokes, or emojis.'' @ (nl @ lit ''        '')"
    by (simp add: extra_flair_normal_def lit_def)
  then have directive: "\<exists>before after.
      extra_flair_normal = before @ lit ''No slang, jokes, or emojis.'' @ after"
    by blast
  have formal: "(\<exists>base examples.
               base_instructions sentiment word_count = Inr base \<and>
               get_normal_examples sentiment = Inr examples \<and>
               generation_prompt rt sentiment original_prompt word_count style_mode =
                 Inr (base @ extra_flair_normal @
                      nl @ nl @ lit ''Examples:'' @ nl @ examples @
                      nl @ lit ''Original Prompt: '' @ original_prompt)) \<and>
            (\<exists>generated s'.
               generate_sentiment_aligned_text rt sentiment original_prompt word_count
                 style_mode s = (Inr generated, s'))"
    if bound: "length (decimal (nat \<bar>word_count\<bar>)) \<le> int_max_str_digits"
  proof -
    obtain base where b: "base_instructions sentiment word_count = Inr base"
      using base_instructions_returns [OF bound] by blast
    show ?thesis
      using generate_returns [OF bound, of rt sentiment original_prompt style_mode s]
      by (simp add: b generation_prompt_normal [OF assms b] get_normal_examples_eq)
  qed
  show ?thesis
    using directive formal by blast
qed

theorem other_style_mode_is_formal_witness:
  "normalize_style_mode failing_runtime [] \<noteq> lit ''ELI10'' \<and>
   length (decimal (nat \<bar>120\<bar>)) \<le> int_max_str_digits \<and>
   (\<exists>base. base_instructions (lit ''negative'') 120 = Inr base \<and>
      generation_prompt failing_runtime (lit ''negative'')
        (lit ''Traffic jams ruin my commute.'') 120 [] =
        Inr (base @ extra_flair_normal @
             nl @ nl @ lit ''Examples:'' @ nl @ normal_example_negative @
             nl @ lit ''Original Prompt: '' @ lit ''Traffic jams ruin my commute.'')) \<and>
   normalize_style_mode failing_runtime (lit ''Shakespearean'') \<noteq> lit ''ELI10'' \<and>
   (\<exists>generated s'.
      generate_sentiment_aligned_text failing_runtime (lit ''negative'')
        (lit ''Traffic jams ruin my commute.'') 120 (lit ''Shakespearean'') fresh
        = (Inr generated, s'))"
proof -
  have n0: "normalize_style_mode failing_runtime [] \<noteq> lit ''ELI10''"
    by (simp add: normalize_eval)
  have n1: "normalize_style_mode failing_runtime (lit ''Shakespearean'') \<noteq> lit ''ELI10''"
    by (simp add: normalize_eval)
  have e: "get_normal_examples (lit ''negative'') = Inr normal_example_negative"
    by (simp add: get_normal_examples_eq dict_get_def normal_examples_def lit_labels_distinct)
  show ?thesis
    using n0 n1 e printable_120
      other_style_mode_is_formal [OF n0, of 120 "lit ''negative''"
        "lit ''Traffic jams ruin my commute.''" fresh]
      other_style_mode_is_formal [OF n1, of 120 "lit ''negative''"
        "lit ''Traffic jams ruin my commute.''" fresh]
    by auto
qed


end
